theory Spec2Isabelle
  imports Main
begin

section \<open>Data model (rbtree.go)\<close>

text \<open>
  \<^verbatim>\<open>type color bool\<close> with \<^verbatim>\<open>black = false\<close>, \<^verbatim>\<open>red = true\<close>.
\<close>

datatype color = Black | Red

text \<open>
  Go pointers \<^verbatim>\<open>*Node[T]\<close>: the Go \<^verbatim>\<open>nil\<close> pointer is \<open>None\<close>, a pointer to
  an allocated node is \<open>Some a\<close> for its address \<open>a\<close>.
\<close>

type_synonym addr = nat
type_synonym ref = "addr option"

record 'a Node =
  color :: color
  parent :: ref
  left :: ref
  right :: ref
  Value :: 'a

text \<open>
  The tree object \<^verbatim>\<open>RBTree[T]\<close> with its fields \<open>root\<close>, \<open>nil\<close> (the sentinel) and
  \<open>compare\<close>, together with the memory its pointers point into: \<open>heap\<close> gives the node
  stored at every address and \<open>fresh\<close> is the next address that an allocation returns.
\<close>

record 'a RBTree =
  root :: ref
  nil :: ref
  compare :: "'a \<Rightarrow> 'a \<Rightarrow> int"
  heap :: "addr \<Rightarrow> 'a Node"
  fresh :: addr

text \<open>
  What ends a call other than a return: a dereference of the Go \<^verbatim>\<open>nil\<close> pointer, an
  explicit \<^verbatim>\<open>panic(msg)\<close>, and an index into an empty slice.
\<close>

datatype error = NilDeref | Panic string | IndexOutOfRange

text \<open>
  A computation takes the state and gives the state it left behind with either the error
  that stopped it or its result; \<open>None\<close> is a computation that never returns.
\<close>

type_synonym ('s, 'x) M = "'s \<Rightarrow> ((error + 'x) \<times> 's) option"

definition ret :: "'x \<Rightarrow> ('s, 'x) M" where
  "ret x = (\<lambda>s. Some (Inr x, s))"

definition throw :: "error \<Rightarrow> ('s, 'x) M" where
  "throw e = (\<lambda>s. Some (Inl e, s))"

definition bind :: "('s, 'x) M \<Rightarrow> ('x \<Rightarrow> ('s, 'y) M) \<Rightarrow> ('s, 'y) M" where
  "bind m f = (\<lambda>s. case m s of
       None \<Rightarrow> None
     | Some (Inl e, s') \<Rightarrow> Some (Inl e, s')
     | Some (Inr x, s') \<Rightarrow> f x s')"

definition gets :: "('s \<Rightarrow> 'x) \<Rightarrow> ('s, 'x) M" where
  "gets f = (\<lambda>s. Some (Inr (f s), s))"

definition modify :: "('s \<Rightarrow> 's) \<Rightarrow> ('s, unit) M" where
  "modify f = (\<lambda>s. Some (Inr (), f s))"

text \<open>Reading a field \<^verbatim>\<open>p.f\<close> and writing one, \<^verbatim>\<open>p.f = v\<close>; both fault on \<^verbatim>\<open>nil\<close>.\<close>

definition get :: "('a Node \<Rightarrow> 'x) \<Rightarrow> ref \<Rightarrow> ('a RBTree, 'x) M" where
  "get f p = (case p of None \<Rightarrow> throw NilDeref | Some a \<Rightarrow> gets (\<lambda>s. f (heap s a)))"

definition put :: "('a Node \<Rightarrow> 'a Node) \<Rightarrow> ref \<Rightarrow> ('a RBTree, unit) M" where
  "put u p = (case p of None \<Rightarrow> throw NilDeref
     | Some a \<Rightarrow> modify (\<lambda>s. s\<lparr>heap := (heap s)(a := u (heap s a))\<rparr>))"

text \<open>\<^verbatim>\<open>&Node[T]{...}\<close>: a new node at the next free address.\<close>

definition alloc :: "'a Node \<Rightarrow> ('a RBTree, ref) M" where
  "alloc n = (\<lambda>s. Some (Inr (Some (fresh s)),
      s\<lparr>heap := (heap s)(fresh s := n), fresh := Suc (fresh s)\<rparr>))"

text \<open>
  A \<^verbatim>\<open>for\<close> loop: the body gets the loop variables and answers \<open>Inl\<close> with their new
  values for another round, or \<open>Inr\<close> with the result when the loop is left (its condition
  fails, a \<^verbatim>\<open>break\<close> or a \<^verbatim>\<open>return\<close>).
\<close>

partial_function (option) whileM ::
  "('x \<Rightarrow> ('s, 'x + 'y) M) \<Rightarrow> 'x \<Rightarrow> 's \<Rightarrow> ((error + 'y) \<times> 's) option" where
  "whileM body x s = (case body x s of
       None \<Rightarrow> None
     | Some (Inl e, s') \<Rightarrow> Some (Inl e, s')
     | Some (Inr (Inl x'), s') \<Rightarrow> whileM body x' s'
     | Some (Inr (Inr y), s') \<Rightarrow> Some (Inr y, s'))"

declare whileM.simps [code]

text \<open>
  \<^verbatim>\<open>New(compare)\<close>: the sentinel is the only node, Black, with the zero value \<open>z\<close> of
  \<^verbatim>\<open>T\<close> and \<^verbatim>\<open>nil\<close> pointers; the root is the sentinel.
\<close>

definition New :: "('a \<Rightarrow> 'a \<Rightarrow> int) \<Rightarrow> 'a \<Rightarrow> 'a RBTree" where
  "New cmp z = \<lparr>root = Some 0, nil = Some 0, compare = cmp,
     heap = (\<lambda>_. \<lparr>color = Black, parent = None, left = None, right = None, Value = z\<rparr>),
     fresh = 1\<rparr>"

definition getColor :: "ref \<Rightarrow> ('a RBTree, color) M" where
  "getColor n = (case n of None \<Rightarrow> ret Black | Some a \<Rightarrow> gets (\<lambda>s. color (heap s a)))"

section \<open>Rotations\<close>

definition rotateLeft :: "ref \<Rightarrow> ('a RBTree, unit) M" where
  "rotateLeft n =
     bind (get right n) (\<lambda>nr. bind (gets nil) (\<lambda>rnil.
     if nr = rnil then throw (Panic ''is this possible?'') else
     bind (get right n) (\<lambda>newRoot.
     bind (get left newRoot) (\<lambda>nrl. bind (put (\<lambda>x. x\<lparr>right := nrl\<rparr>) n) (\<lambda>_.
     bind (put (\<lambda>x. x\<lparr>left := n\<rparr>) newRoot) (\<lambda>_.
     bind (get right n) (\<lambda>nr'.
     bind (if nr' \<noteq> rnil then put (\<lambda>x. x\<lparr>parent := n\<rparr>) nr' else ret ()) (\<lambda>_.
     bind (get parent n) (\<lambda>np.
     bind (if np = None then modify (\<lambda>s. s\<lparr>root := newRoot\<rparr>)
           else bind (get left np) (\<lambda>npl.
             if npl = n then put (\<lambda>x. x\<lparr>left := newRoot\<rparr>) np
             else put (\<lambda>x. x\<lparr>right := newRoot\<rparr>) np)) (\<lambda>_.
     bind (get parent n) (\<lambda>np'. bind (put (\<lambda>x. x\<lparr>parent := np'\<rparr>) newRoot) (\<lambda>_.
     put (\<lambda>x. x\<lparr>parent := newRoot\<rparr>) n))))))))))))"

text \<open>The guard of \<^verbatim>\<open>rotateRight\<close> compares with the Go \<^verbatim>\<open>nil\<close>, not with \<^verbatim>\<open>r.nil\<close>.\<close>

definition rotateRight :: "ref \<Rightarrow> ('a RBTree, unit) M" where
  "rotateRight n =
     bind (get left n) (\<lambda>nl. bind (gets nil) (\<lambda>rnil.
     if nl = None then throw (Panic ''is this possible?'') else
     bind (get left n) (\<lambda>newRoot.
     bind (get right newRoot) (\<lambda>nlr. bind (put (\<lambda>x. x\<lparr>left := nlr\<rparr>) n) (\<lambda>_.
     bind (put (\<lambda>x. x\<lparr>right := n\<rparr>) newRoot) (\<lambda>_.
     bind (get left n) (\<lambda>nl'.
     bind (if nl' \<noteq> rnil then put (\<lambda>x. x\<lparr>parent := n\<rparr>) nl' else ret ()) (\<lambda>_.
     bind (get parent n) (\<lambda>np.
     bind (if np = None then modify (\<lambda>s. s\<lparr>root := newRoot\<rparr>)
           else bind (get right np) (\<lambda>npr.
             if npr = n then put (\<lambda>x. x\<lparr>right := newRoot\<rparr>) np
             else put (\<lambda>x. x\<lparr>left := newRoot\<rparr>) np)) (\<lambda>_.
     bind (get parent n) (\<lambda>np'. bind (put (\<lambda>x. x\<lparr>parent := np'\<rparr>) newRoot) (\<lambda>_.
     put (\<lambda>x. x\<lparr>parent := newRoot\<rparr>) n))))))))))))"

section \<open>Insertion\<close>

text \<open>
  The two arms of the loop of \<^verbatim>\<open>insertFixup\<close>, for a parent that is the left and the right
  child of the grandparent; each answers the next value of \<^verbatim>\<open>check\<close>.
\<close>

definition insertFixup_left :: "ref \<Rightarrow> ref \<Rightarrow> ('a RBTree, ref) M" where
  "insertFixup_left check grandParent =
     bind (get right grandParent) (\<lambda>uncle.
     bind (getColor uncle) (\<lambda>uc.
     if uc = Red then
       bind (get parent check) (\<lambda>cp.
       bind (put (\<lambda>x. x\<lparr>color := Black\<rparr>) cp) (\<lambda>_.
       bind (put (\<lambda>x. x\<lparr>color := Black\<rparr>) uncle) (\<lambda>_.
       bind (put (\<lambda>x. x\<lparr>color := Red\<rparr>) grandParent) (\<lambda>_.
       ret grandParent))))
     else
       bind (get parent check) (\<lambda>cp.
       bind (get right cp) (\<lambda>cpo.
       bind (if check = cpo then
         bind (get parent check) (\<lambda>check'.
         bind (rotateLeft check') (\<lambda>_.
         ret check'))
       else
         ret check)
         (\<lambda>check.
       bind (get parent check) (\<lambda>cp.
       bind (put (\<lambda>x. x\<lparr>color := Black\<rparr>) cp) (\<lambda>_.
       bind (get parent check) (\<lambda>cp.
       bind (get parent cp) (\<lambda>cpp.
       bind (put (\<lambda>x. x\<lparr>color := Red\<rparr>) cpp) (\<lambda>_.
       bind (get parent check) (\<lambda>cp.
       bind (get parent cp) (\<lambda>cpp.
       bind (rotateRight cpp) (\<lambda>_.
       ret check)))))))))))))"

definition insertFixup_right :: "ref \<Rightarrow> ref \<Rightarrow> ('a RBTree, ref) M" where
  "insertFixup_right check grandParent =
     bind (get left grandParent) (\<lambda>uncle.
     bind (getColor uncle) (\<lambda>uc.
     if uc = Red then
       bind (get parent check) (\<lambda>cp.
       bind (put (\<lambda>x. x\<lparr>color := Black\<rparr>) cp) (\<lambda>_.
       bind (put (\<lambda>x. x\<lparr>color := Black\<rparr>) uncle) (\<lambda>_.
       bind (put (\<lambda>x. x\<lparr>color := Red\<rparr>) grandParent) (\<lambda>_.
       ret grandParent))))
     else
       bind (get parent check) (\<lambda>cp.
       bind (get left cp) (\<lambda>cpo.
       bind (if check = cpo then
         bind (get parent check) (\<lambda>check'.
         bind (rotateRight check') (\<lambda>_.
         ret check'))
       else
         ret check)
         (\<lambda>check.
       bind (get parent check) (\<lambda>cp.
       bind (put (\<lambda>x. x\<lparr>color := Black\<rparr>) cp) (\<lambda>_.
       bind (get parent check) (\<lambda>cp.
       bind (get parent cp) (\<lambda>cpp.
       bind (put (\<lambda>x. x\<lparr>color := Red\<rparr>) cpp) (\<lambda>_.
       bind (get parent check) (\<lambda>cp.
       bind (get parent cp) (\<lambda>cpp.
       bind (rotateLeft cpp) (\<lambda>_.
       ret check)))))))))))))"

text \<open>One round of the loop of \<^verbatim>\<open>insertFixup\<close>; the loop variable is \<^verbatim>\<open>check\<close>.\<close>

definition insertFixup_body :: "ref \<Rightarrow> ('a RBTree, ref + unit) M" where
  "insertFixup_body check =
     bind (get parent check) (\<lambda>cp.
     bind (getColor cp) (\<lambda>cpc.
     if cpc \<noteq> Red then
       ret (Inr ())
     else
       bind (get parent check) (\<lambda>cp.
       bind (get parent cp) (\<lambda>grandParent.
       bind (get parent check) (\<lambda>cp.
       bind (get left grandParent) (\<lambda>gl.
       if cp = gl then
         bind (insertFixup_left check grandParent) (\<lambda>check'.
         ret (Inl check'))
       else
         bind (insertFixup_right check grandParent) (\<lambda>check'.
         ret (Inl check'))))))))"

definition insertFixup :: "ref \<Rightarrow> ('a RBTree, unit) M" where
  "insertFixup check =
     bind (whileM insertFixup_body check) (\<lambda>_.
     bind (gets root) (\<lambda>rt.
     put (\<lambda>x. x\<lparr>color := Black\<rparr>) rt))"

text \<open>
  One round of the descent of \<^verbatim>\<open>Insert\<close>; the loop variable is \<^verbatim>\<open>current\<close>, and
  \<^verbatim>\<open>ins\<close> is the node to attach (\<^verbatim>\<open>insert\<close> in the source).
\<close>

definition Insert_body :: "'a \<Rightarrow> ref \<Rightarrow> ref \<Rightarrow> ('a RBTree, ref + unit) M" where
  "Insert_body val ins current =
     bind (gets nil) (\<lambda>rnil.
     if current = rnil then
       ret (Inr ())
     else
       bind (gets compare) (\<lambda>cmp.
       bind (get Value current) (\<lambda>cv.
       if cmp val cv < 0 then
         bind (get left current) (\<lambda>cl.
         if cl = rnil then
           bind (put (\<lambda>x. x\<lparr>parent := current\<rparr>) ins) (\<lambda>_.
           bind (put (\<lambda>x. x\<lparr>left := ins\<rparr>) current) (\<lambda>_.
           ret (Inr ())))
         else
           bind (get left current) (\<lambda>cl'.
           ret (Inl cl')))
       else
         if cmp val cv > 0 then
           bind (get right current) (\<lambda>cl.
           if cl = rnil then
             bind (put (\<lambda>x. x\<lparr>parent := current\<rparr>) ins) (\<lambda>_.
             bind (put (\<lambda>x. x\<lparr>right := ins\<rparr>) current) (\<lambda>_.
             ret (Inr ())))
           else
             bind (get right current) (\<lambda>cl'.
             ret (Inl cl')))
         else
           throw (Panic ''duplicate value''))))"

definition Insert :: "'a \<Rightarrow> ('a RBTree, ref) M" where
  "Insert val =
     bind (gets root) (\<lambda>rt.
     bind (gets nil) (\<lambda>rnil.
     if rt = rnil then
       bind (alloc \<lparr>color = Black, parent = None, left = rnil, right = rnil, Value = val\<rparr>) (\<lambda>n.
       bind (modify (\<lambda>s. s\<lparr>root := n\<rparr>)) (\<lambda>_.
       gets root))
     else
       bind (gets root) (\<lambda>current.
       bind (alloc \<lparr>color = Red, parent = None, left = rnil, right = rnil, Value = val\<rparr>) (\<lambda>ins.
       bind (whileM (Insert_body val ins) current) (\<lambda>_.
       bind (insertFixup ins) (\<lambda>_.
       ret ins))))))"

section \<open>Search\<close>

definition Search_body :: "'a \<Rightarrow> ref \<Rightarrow> ('a RBTree, ref + ref) M" where
  "Search_body val current =
     bind (gets nil) (\<lambda>rnil.
     if current = rnil then
       ret (Inr None)
     else
       bind (gets compare) (\<lambda>cmp.
       bind (get Value current) (\<lambda>cv.
       if cmp val cv < 0 then
         bind (get left current) (\<lambda>cl.
         ret (Inl cl))
       else
         if cmp val cv > 0 then
           bind (get right current) (\<lambda>cr.
           ret (Inl cr))
         else
           ret (Inr current))))"

definition Search :: "'a \<Rightarrow> ('a RBTree, ref) M" where
  "Search val =
     bind (gets root) (\<lambda>current.
     whileM (Search_body val) current)"

definition Has :: "'a \<Rightarrow> ('a RBTree, bool) M" where
  "Has val =
     bind (Search val) (\<lambda>n.
     ret (n \<noteq> None))"

section \<open>Deletion\<close>

definition transplant :: "ref \<Rightarrow> ref \<Rightarrow> ('a RBTree, unit) M" where
  "transplant u v =
     bind (get parent u) (\<lambda>up.
     bind (if up = None then
       modify (\<lambda>s. s\<lparr>root := v\<rparr>)
     else
       bind (get left up) (\<lambda>upl.
       if u = upl then
         put (\<lambda>x. x\<lparr>left := v\<rparr>) up
       else
         put (\<lambda>x. x\<lparr>right := v\<rparr>) up))
       (\<lambda>_.
     bind (get parent u) (\<lambda>up'.
     put (\<lambda>x. x\<lparr>parent := up'\<rparr>) v)))"

text \<open>
  The two arms of the loop of \<^verbatim>\<open>deleteFixup\<close>, for \<^verbatim>\<open>n\<close> the left and the right child
  of its parent; each answers the next value of \<^verbatim>\<open>n\<close>.
\<close>

definition deleteFixup_left :: "ref \<Rightarrow> ('a RBTree, ref) M" where
  "deleteFixup_left n =
     bind (get parent n) (\<lambda>np.
     bind (get right np) (\<lambda>sibling.
     bind (getColor sibling) (\<lambda>sc.
     bind (if sc = Red then
       bind (put (\<lambda>x. x\<lparr>color := Black\<rparr>) sibling) (\<lambda>_.
       bind (get parent n) (\<lambda>np.
       bind (put (\<lambda>x. x\<lparr>color := Red\<rparr>) np) (\<lambda>_.
       bind (get parent n) (\<lambda>np.
       bind (rotateLeft np) (\<lambda>_.
       bind (get parent n) (\<lambda>np.
       get right np))))))
     else
       ret sibling)
       (\<lambda>sibling.
     bind (get left sibling) (\<lambda>s1.
     bind (getColor s1) (\<lambda>s1c.
     bind (if s1c = Black then
       bind (get right sibling) (\<lambda>s2.
       bind (getColor s2) (\<lambda>s2c.
       ret (s2c = Black)))
     else
       ret False)
       (\<lambda>bothBlack.
     if bothBlack then
       bind (put (\<lambda>x. x\<lparr>color := Red\<rparr>) sibling) (\<lambda>_.
       get parent n)
     else
       bind (get right sibling) (\<lambda>sf.
       bind (getColor sf) (\<lambda>sfc.
       bind (if sfc = Black then
         bind (get left sibling) (\<lambda>sn.
         bind (put (\<lambda>x. x\<lparr>color := Black\<rparr>) sn) (\<lambda>_.
         bind (put (\<lambda>x. x\<lparr>color := Red\<rparr>) sibling) (\<lambda>_.
         bind (rotateRight sibling) (\<lambda>_.
         bind (get parent n) (\<lambda>np.
         get right np)))))
       else
         ret sibling)
         (\<lambda>sibling.
       bind (get parent n) (\<lambda>np.
       bind (get color np) (\<lambda>npc.
       bind (put (\<lambda>x. x\<lparr>color := npc\<rparr>) sibling) (\<lambda>_.
       bind (get parent n) (\<lambda>np.
       bind (put (\<lambda>x. x\<lparr>color := Black\<rparr>) np) (\<lambda>_.
       bind (get right sibling) (\<lambda>sf.
       bind (put (\<lambda>x. x\<lparr>color := Black\<rparr>) sf) (\<lambda>_.
       bind (get parent n) (\<lambda>np.
       bind (rotateLeft np) (\<lambda>_.
       gets root)))))))))))))))))))"

definition deleteFixup_right :: "ref \<Rightarrow> ('a RBTree, ref) M" where
  "deleteFixup_right n =
     bind (get parent n) (\<lambda>np.
     bind (get left np) (\<lambda>sibling.
     bind (getColor sibling) (\<lambda>sc.
     bind (if sc = Red then
       bind (put (\<lambda>x. x\<lparr>color := Black\<rparr>) sibling) (\<lambda>_.
       bind (get parent n) (\<lambda>np.
       bind (put (\<lambda>x. x\<lparr>color := Red\<rparr>) np) (\<lambda>_.
       bind (get parent n) (\<lambda>np.
       bind (rotateRight np) (\<lambda>_.
       bind (get parent n) (\<lambda>np.
       get left np))))))
     else
       ret sibling)
       (\<lambda>sibling.
     bind (get right sibling) (\<lambda>s1.
     bind (getColor s1) (\<lambda>s1c.
     bind (if s1c = Black then
       bind (get left sibling) (\<lambda>s2.
       bind (getColor s2) (\<lambda>s2c.
       ret (s2c = Black)))
     else
       ret False)
       (\<lambda>bothBlack.
     if bothBlack then
       bind (put (\<lambda>x. x\<lparr>color := Red\<rparr>) sibling) (\<lambda>_.
       get parent n)
     else
       bind (get left sibling) (\<lambda>sf.
       bind (getColor sf) (\<lambda>sfc.
       bind (if sfc = Black then
         bind (get right sibling) (\<lambda>sn.
         bind (put (\<lambda>x. x\<lparr>color := Black\<rparr>) sn) (\<lambda>_.
         bind (put (\<lambda>x. x\<lparr>color := Red\<rparr>) sibling) (\<lambda>_.
         bind (rotateLeft sibling) (\<lambda>_.
         bind (get parent n) (\<lambda>np.
         get left np)))))
       else
         ret sibling)
         (\<lambda>sibling.
       bind (get parent n) (\<lambda>np.
       bind (get color np) (\<lambda>npc.
       bind (put (\<lambda>x. x\<lparr>color := npc\<rparr>) sibling) (\<lambda>_.
       bind (get parent n) (\<lambda>np.
       bind (put (\<lambda>x. x\<lparr>color := Black\<rparr>) np) (\<lambda>_.
       bind (get left sibling) (\<lambda>sf.
       bind (put (\<lambda>x. x\<lparr>color := Black\<rparr>) sf) (\<lambda>_.
       bind (get parent n) (\<lambda>np.
       bind (rotateRight np) (\<lambda>_.
       gets root)))))))))))))))))))"

text \<open>One round of the loop of \<^verbatim>\<open>deleteFixup\<close>; the loop variable is \<^verbatim>\<open>n\<close>.\<close>

definition deleteFixup_body :: "ref \<Rightarrow> ('a RBTree, ref + ref) M" where
  "deleteFixup_body n =
     bind (gets root) (\<lambda>rt.
     bind (getColor n) (\<lambda>nc.
     if \<not> (n \<noteq> rt \<and> nc = Black) then
       ret (Inr n)
     else
       bind (get parent n) (\<lambda>np.
       bind (get left np) (\<lambda>npl.
       if n = npl then
         bind (deleteFixup_left n) (\<lambda>n'.
         ret (Inl n'))
       else
         bind (deleteFixup_right n) (\<lambda>n'.
         ret (Inl n'))))))"

definition deleteFixup :: "ref \<Rightarrow> ('a RBTree, unit) M" where
  "deleteFixup n =
     bind (whileM deleteFixup_body n) (\<lambda>n'.
     put (\<lambda>x. x\<lparr>color := Black\<rparr>) n')"

text \<open>The descent \<^verbatim>\<open>for minimum.left != r.nil { minimum = minimum.left }\<close>.\<close>

definition leftmost_body :: "ref \<Rightarrow> ('a RBTree, ref + ref) M" where
  "leftmost_body minimum =
     bind (get left minimum) (\<lambda>ml.
     bind (gets nil) (\<lambda>rnil.
     if ml \<noteq> rnil then
       bind (get left minimum) (\<lambda>ml'.
       ret (Inl ml'))
     else
       ret (Inr minimum)))"

text \<open>
  The third case of \<^verbatim>\<open>DeleteNode\<close>, a node with two children; it answers the node
  \<^verbatim>\<open>odd\<close> and the colour \<^verbatim>\<open>originalColor\<close>.
\<close>

definition DeleteNode_two :: "ref \<Rightarrow> ('a RBTree, ref \<times> color) M" where
  "DeleteNode_two n =
     bind (get right n) (\<lambda>m0.
     bind (whileM leftmost_body m0) (\<lambda>minimum.
     bind (get color minimum) (\<lambda>originalColor.
     bind (get right minimum) (\<lambda>odd.
     bind (get parent minimum) (\<lambda>mp.
     bind (if mp = n then
       if odd \<noteq> None then
         put (\<lambda>x. x\<lparr>parent := minimum\<rparr>) odd
       else
         ret ()
     else
       bind (get right minimum) (\<lambda>mr.
       bind (transplant minimum mr) (\<lambda>_.
       bind (get right n) (\<lambda>nr.
       bind (put (\<lambda>x. x\<lparr>right := nr\<rparr>) minimum) (\<lambda>_.
       bind (get right minimum) (\<lambda>mr'.
       put (\<lambda>x. x\<lparr>parent := minimum\<rparr>) mr'))))))
       (\<lambda>_.
     bind (transplant n minimum) (\<lambda>_.
     bind (get left n) (\<lambda>nl.
     bind (put (\<lambda>x. x\<lparr>left := nl\<rparr>) minimum) (\<lambda>_.
     bind (get left minimum) (\<lambda>ml.
     bind (put (\<lambda>x. x\<lparr>parent := minimum\<rparr>) ml) (\<lambda>_.
     bind (get color n) (\<lambda>nc.
     bind (put (\<lambda>x. x\<lparr>color := nc\<rparr>) minimum) (\<lambda>_.
     ret (odd, originalColor))))))))))))))"

definition DeleteNode :: "ref \<Rightarrow> ('a RBTree, bool) M" where
  "DeleteNode n =
     (if n = None then
       ret False
     else
       bind (get color n) (\<lambda>originalColor.
       bind (get left n) (\<lambda>nl.
       bind (gets nil) (\<lambda>rnil.
       bind (if nl = rnil then
         bind (get right n) (\<lambda>odd.
         bind (transplant n odd) (\<lambda>_.
         ret (odd, originalColor)))
       else
         bind (get right n) (\<lambda>nr.
         if nr = rnil then
           bind (get left n) (\<lambda>odd.
           bind (transplant n odd) (\<lambda>_.
           ret (odd, originalColor)))
         else
           DeleteNode_two n))
         (\<lambda>oc.
       bind (if snd oc = Black then
         deleteFixup (fst oc)
       else
         ret ())
         (\<lambda>_.
       ret True))))))"

definition Delete :: "'a \<Rightarrow> ('a RBTree, bool) M" where
  "Delete val =
     bind (Search val) (\<lambda>n.
     DeleteNode n)"

section \<open>Navigation\<close>

definition rightmost_body :: "ref \<Rightarrow> ('a RBTree, ref + ref) M" where
  "rightmost_body node =
     bind (get right node) (\<lambda>ml.
     bind (gets nil) (\<lambda>rnil.
     if ml \<noteq> rnil then
       bind (get right node) (\<lambda>ml'.
       ret (Inl ml'))
     else
       ret (Inr node)))"

text \<open>
  The ascent \<^verbatim>\<open>for succ != nil && node == succ.right\<close> of \<^verbatim>\<open>Successor\<close> and its mirror
  image in \<^verbatim>\<open>Predecessor\<close>; the loop variables are \<^verbatim>\<open>node\<close> and the candidate.
\<close>

definition climbRight_body :: "ref \<times> ref \<Rightarrow> ('a RBTree, (ref \<times> ref) + ref) M" where
  "climbRight_body ns =
     (if snd ns = None then
       ret (Inr (snd ns))
     else
       bind (get right (snd ns)) (\<lambda>sr.
       if fst ns = sr then
         bind (get parent (snd ns)) (\<lambda>sp.
         ret (Inl (snd ns, sp)))
       else
         ret (Inr (snd ns))))"

definition climbLeft_body :: "ref \<times> ref \<Rightarrow> ('a RBTree, (ref \<times> ref) + ref) M" where
  "climbLeft_body ns =
     (if snd ns = None then
       ret (Inr (snd ns))
     else
       bind (get left (snd ns)) (\<lambda>sr.
       if fst ns = sr then
         bind (get parent (snd ns)) (\<lambda>sp.
         ret (Inl (snd ns, sp)))
       else
         ret (Inr (snd ns))))"

definition Successor :: "ref \<Rightarrow> ('a RBTree, ref) M" where
  "Successor node =
     (if node = None then
       ret None
     else
       bind (get right node) (\<lambda>nr.
       bind (gets nil) (\<lambda>tnil.
       if nr \<noteq> tnil then
         bind (get right node) (\<lambda>node'.
         whileM leftmost_body node')
       else
         bind (get parent node) (\<lambda>succ.
         whileM climbRight_body (node, succ)))))"

definition Predecessor :: "ref \<Rightarrow> ('a RBTree, ref) M" where
  "Predecessor node =
     (if node = None then
       ret None
     else
       bind (get left node) (\<lambda>nr.
       bind (gets nil) (\<lambda>tnil.
       if nr \<noteq> tnil then
         bind (get left node) (\<lambda>node'.
         whileM rightmost_body node')
       else
         bind (get parent node) (\<lambda>succ.
         whileM climbLeft_body (node, succ)))))"

section \<open>Iteration (iterator.go)\<close>

text \<open>
  \<^verbatim>\<open>type IterationMethod int\<close> with the constants \<^verbatim>\<open>InOrder\<close>, \<^verbatim>\<open>PreOrder\<close>,
  \<^verbatim>\<open>PostOrder\<close> and \<^verbatim>\<open>LevelOrder\<close> numbered from 0.
\<close>

type_synonym IterationMethod = int

definition InOrder :: IterationMethod where "InOrder = 0"
definition PreOrder :: IterationMethod where "PreOrder = 1"
definition PostOrder :: IterationMethod where "PostOrder = 2"
definition LevelOrder :: IterationMethod where "LevelOrder = 3"

text \<open>
  The callback \<^verbatim>\<open>yield\<close> is a function of the value and of the state \<open>'y\<close> that the caller
  keeps; it answers whether to go on, and the caller's new state. An iterator answers the
  caller's last state. The slices \<^verbatim>\<open>stack\<close> and \<^verbatim>\<open>queue\<close> are lists with
  \<^verbatim>\<open>append\<close> at the end.
\<close>

definition inOrder_push :: "ref \<times> ref list \<Rightarrow> ('a RBTree, (ref \<times> ref list) + (ref \<times> ref list)) M" where
  "inOrder_push cs =
     bind (gets nil) (\<lambda>tnil.
     if fst cs \<noteq> tnil then
       bind (get left (fst cs)) (\<lambda>cl.
       ret (Inl (cl, snd cs @ [fst cs])))
     else
       ret (Inr cs))"

definition inOrder_body :: "('a \<Rightarrow> 'y \<Rightarrow> bool \<times> 'y) \<Rightarrow> ref \<times> ref list \<times> 'y \<Rightarrow> ('a RBTree, (ref \<times> ref list \<times> 'y) + 'y) M" where
  "inOrder_body yield st =
     (case st of (current, stack, y) \<Rightarrow>
     bind (gets nil) (\<lambda>tnil.
     if \<not> (current \<noteq> tnil \<or> length stack > 0) then
       ret (Inr y)
     else
       bind (whileM inOrder_push (current, stack)) (\<lambda>cs.
       if snd cs = [] then
         throw IndexOutOfRange
       else
         bind (get Value (last (snd cs))) (\<lambda>cv.
         if \<not> fst (yield cv y) then
           ret (Inr (snd (yield cv y)))
         else
           bind (get right (last (snd cs))) (\<lambda>cr.
           ret (Inl (cr, butlast (snd cs), snd (yield cv y))))))))"

definition inOrderIter_Iterate :: "('a \<Rightarrow> 'y \<Rightarrow> bool \<times> 'y) \<Rightarrow> 'y \<Rightarrow> ('a RBTree, 'y) M" where
  "inOrderIter_Iterate yield y =
     bind (gets root) (\<lambda>current.
     whileM (inOrder_body yield) (current, [], y))"

definition preOrder_body :: "('a \<Rightarrow> 'y \<Rightarrow> bool \<times> 'y) \<Rightarrow> ref list \<times> 'y \<Rightarrow> ('a RBTree, (ref list \<times> 'y) + 'y) M" where
  "preOrder_body yield st =
     (case st of (stack, y) \<Rightarrow>
     if \<not> length stack > 0 then
       ret (Inr y)
     else
       bind (get Value (last stack)) (\<lambda>nv.
       if \<not> fst (yield nv y) then
         ret (Inr (snd (yield nv y)))
       else
         bind (gets nil) (\<lambda>tnil.
         bind (get right (last stack)) (\<lambda>nr.
         bind (if nr \<noteq> tnil then
           bind (get right (last stack)) (\<lambda>nr'.
           ret (butlast stack @ [nr']))
         else
           ret (butlast stack))
           (\<lambda>stack1.
         bind (get left (last stack)) (\<lambda>nl.
         bind (if nl \<noteq> tnil then
           bind (get left (last stack)) (\<lambda>nl'.
           ret (stack1 @ [nl']))
         else
           ret stack1)
           (\<lambda>stack2.
         ret (Inl (stack2, snd (yield nv y))))))))))"

definition preOrderIter_Iterate :: "('a \<Rightarrow> 'y \<Rightarrow> bool \<times> 'y) \<Rightarrow> 'y \<Rightarrow> ('a RBTree, 'y) M" where
  "preOrderIter_Iterate yield y =
     bind (gets root) (\<lambda>rt.
     bind (gets nil) (\<lambda>tnil.
     if rt = tnil then
       ret y
     else
       bind (gets root) (\<lambda>rt'.
       whileM (preOrder_body yield) ([rt'], y))))"

definition postOrder_body :: "('a \<Rightarrow> 'y \<Rightarrow> bool \<times> 'y) \<Rightarrow> ref \<times> ref list \<times> ref \<times> 'y \<Rightarrow> ('a RBTree, (ref \<times> ref list \<times> ref \<times> 'y) + 'y) M" where
  "postOrder_body yield st =
     (case st of (current, stack, lastVisit, y) \<Rightarrow>
     bind (gets nil) (\<lambda>tnil.
     if \<not> (length stack > 0 \<or> current \<noteq> tnil) then
       ret (Inr y)
     else
       if current \<noteq> tnil then
         bind (get left current) (\<lambda>cl.
         ret (Inl (cl, stack @ [current], lastVisit, y)))
       else
         if stack = [] then
           throw IndexOutOfRange
         else
           bind (get right (last stack)) (\<lambda>pr.
           if pr \<noteq> tnil \<and> lastVisit \<noteq> pr then
             bind (get right (last stack)) (\<lambda>pr'.
             ret (Inl (pr', stack, lastVisit, y)))
           else
             bind (get Value (last stack)) (\<lambda>pv.
             if \<not> fst (yield pv y) then
               ret (Inr (snd (yield pv y)))
             else
               ret (Inl (current, butlast stack, last stack, snd (yield pv y)))))))"

definition postOrderIter_Iterate :: "('a \<Rightarrow> 'y \<Rightarrow> bool \<times> 'y) \<Rightarrow> 'y \<Rightarrow> ('a RBTree, 'y) M" where
  "postOrderIter_Iterate yield y =
     bind (gets root) (\<lambda>rt.
     bind (gets nil) (\<lambda>tnil.
     if rt = tnil then
       ret y
     else
       bind (gets root) (\<lambda>current.
       whileM (postOrder_body yield) (current, [], None, y))))"

definition levelOrder_body :: "('a \<Rightarrow> 'y \<Rightarrow> bool \<times> 'y) \<Rightarrow> ref list \<times> 'y \<Rightarrow> ('a RBTree, (ref list \<times> 'y) + 'y) M" where
  "levelOrder_body yield st =
     (case st of (queue, y) \<Rightarrow>
     if \<not> length queue > 0 then
       ret (Inr y)
     else
       bind (get Value (hd queue)) (\<lambda>nv.
       if \<not> fst (yield nv y) then
         ret (Inr (snd (yield nv y)))
       else
         bind (gets nil) (\<lambda>tnil.
         bind (get left (hd queue)) (\<lambda>nl.
         bind (if nl \<noteq> tnil then
           bind (get left (hd queue)) (\<lambda>nl'.
           ret (tl queue @ [nl']))
         else
           ret (tl queue))
           (\<lambda>queue1.
         bind (get right (hd queue)) (\<lambda>nr.
         bind (if nr \<noteq> tnil then
           bind (get right (hd queue)) (\<lambda>nr'.
           ret (queue1 @ [nr']))
         else
           ret queue1)
           (\<lambda>queue2.
         ret (Inl (queue2, snd (yield nv y))))))))))"

definition levelOrderIter_Iterate :: "('a \<Rightarrow> 'y \<Rightarrow> bool \<times> 'y) \<Rightarrow> 'y \<Rightarrow> ('a RBTree, 'y) M" where
  "levelOrderIter_Iterate yield y =
     bind (gets root) (\<lambda>rt.
     bind (gets nil) (\<lambda>tnil.
     if rt = tnil then
       ret y
     else
       bind (gets root) (\<lambda>rt'.
       whileM (levelOrder_body yield) ([rt'], y))))"

definition Iterate :: "IterationMethod \<Rightarrow> ('a \<Rightarrow> 'y \<Rightarrow> bool \<times> 'y) \<Rightarrow> 'y \<Rightarrow> ('a RBTree, 'y) M" where
  "Iterate method yield y =
     (if method = InOrder then
       inOrderIter_Iterate yield y
     else
       if method = PreOrder then
         preOrderIter_Iterate yield y
       else
         if method = PostOrder then
           postOrderIter_Iterate yield y
         else
           if method = LevelOrder then
             levelOrderIter_Iterate yield y
           else
             throw (Panic ''unknown iteration method''))"

text \<open>
  \<^verbatim>\<open>runIterator\<close> of iterator_test.go: the callback appends every value to a slice and
  never stops the iteration.
\<close>

definition runIterator :: "(('a \<Rightarrow> 'a list \<Rightarrow> bool \<times> 'a list) \<Rightarrow> 'a list \<Rightarrow> ('a RBTree, 'a list) M)
    \<Rightarrow> ('a RBTree, 'a list) M" where
  "runIterator fn = fn (\<lambda>val out. (True, out @ [val])) []"

section \<open>Callers (rbtree_test.go, iterator_test.go)\<close>

text \<open>\<^verbatim>\<open>cmp.Compare\<close> of the Go standard library, on a linearly ordered type.\<close>

definition cmp_Compare :: "'a::linorder \<Rightarrow> 'a \<Rightarrow> int" where
  "cmp_Compare x y = (if x < y then - 1 else if y < x then 1 else 0)"

text \<open>\<^verbatim>\<open>for _, v := range inserts { tree.Insert(v) }\<close> and the same loop with \<^verbatim>\<open>Delete\<close>.\<close>

fun InsertAll :: "'a list \<Rightarrow> ('a RBTree, unit) M" where
  "InsertAll [] = ret ()"
| "InsertAll (v # vs) = bind (Insert v) (\<lambda>_. InsertAll vs)"

fun DeleteAll :: "'a list \<Rightarrow> ('a RBTree, unit) M" where
  "DeleteAll [] = ret ()"
| "DeleteAll (v # vs) = bind (Delete v) (\<lambda>_. DeleteAll vs)"

section \<open>Evaluation\<close>

lemmas monad_defs = bind_def ret_def throw_def gets_def modify_def get_def put_def alloc_def
  getColor_def

lemmas insert_defs = rotateLeft_def rotateRight_def insertFixup_left_def insertFixup_right_def
  insertFixup_body_def insertFixup_def Insert_body_def Insert_def New_def cmp_Compare_def

lemmas iterate_defs = Iterate_def runIterator_def InOrder_def PreOrder_def PostOrder_def
  LevelOrder_def inOrder_push_def inOrder_body_def inOrderIter_Iterate_def preOrder_body_def
  preOrderIter_Iterate_def postOrder_body_def postOrderIter_Iterate_def levelOrder_body_def
  levelOrderIter_Iterate_def


section \<open>The four traversals of the tree built from 1 to 10\<close>

text \<open>
  C4. After \<^verbatim>\<open>Insert\<close> of 1, 2, ..., 10 in this order into the tree of \<^verbatim>\<open>New(cmp.Compare)\<close>,
  the in-order traversal gives 1..10, the pre-order traversal 4,2,1,3,6,5,8,7,9,10, the
  post-order traversal 1,3,2,5,7,10,9,8,6,4 and the level-order traversal
  4,2,6,1,3,5,8,7,9,10; every call returns without a fault.
\<close>

theorem traversals_one_to_ten:
  "map_option fst (bind (InsertAll [1, 2, 3, 4, 5, 6, 7, 8, 9, 10 :: int]) (\<lambda>_.
     bind (runIterator (Iterate InOrder)) (\<lambda>ino.
     bind (runIterator (Iterate PreOrder)) (\<lambda>pre.
     bind (runIterator (Iterate PostOrder)) (\<lambda>post.
     bind (runIterator (Iterate LevelOrder)) (\<lambda>level.
     ret (ino, pre, post, level)))))) (New cmp_Compare 0))
   = Some (Inr ([1, 2, 3, 4, 5, 6, 7, 8, 9, 10],
                [4, 2, 1, 3, 6, 5, 8, 7, 9, 10],
                [1, 3, 2, 5, 7, 10, 9, 8, 6, 4],
                [4, 2, 6, 1, 3, 5, 8, 7, 9, 10]))"
  by (simp add: monad_defs insert_defs iterate_defs whileM.simps)

section \<open>The guards of the rotations\<close>

text \<open>
  \<^verbatim>\<open>rotateLeft\<close> on a node whose right child is the sentinel panics before it writes
  anything.
\<close>

lemma rotateLeft_guard:
  "right (heap s a) = nil s \<Longrightarrow>
   rotateLeft (Some a) s = Some (Inl (Panic ''is this possible?''), s)"
  by (simp add: rotateLeft_def monad_defs)

text \<open>
  C8, at the tree that holds the single value 1 (its node is at address 1, the sentinel at
  address 0, both children of the node are the sentinel). \<^verbatim>\<open>rotateLeft\<close> of the node
  panics with the tree as it was. \<^verbatim>\<open>rotateRight\<close> of the node does not reach its
  panic: it sets the node's left pointer to the Go \<^verbatim>\<open>nil\<close> and the sentinel's right
  pointer to the node, and then stops on a dereference of \<^verbatim>\<open>nil\<close>.
\<close>

theorem rotateRight_sentinel_child:
  "\<exists>s s'. Insert (1 :: int) (New cmp_Compare 0) = Some (Inr (Some 1), s)
     \<and> left (heap s 1) = nil s \<and> right (heap s 1) = nil s
     \<and> rotateLeft (Some 1) s = Some (Inl (Panic ''is this possible?''), s)
     \<and> rotateRight (Some 1) s = Some (Inl NilDeref, s')
     \<and> left (heap s' 1) = None \<and> right (heap s' 0) = Some 1"
  by (simp add: monad_defs insert_defs)

section \<open>What \<^verbatim>\<open>DeleteNode\<close> returns\<close>





end
